theory Spec2Isabelle
  imports Complex_Main "HOL-Library.Word"
begin

unbundle bit_operations_syntax

section \<open>Fitness tracker: values and rows\<close>

text \<open>
  The development follows \<^verbatim>\<open>src/Fitness.py\<close>.

  A Python \<^verbatim>\<open>str\<close> is a list of code points. Python numbers that reach the
  analytics (the \<^verbatim>\<open>REAL\<close> and \<^verbatim>\<open>INTEGER\<close> columns of the tables) are
  modelled by exact rationals and integers: the arithmetic of the source is the
  arithmetic written here, without the rounding of binary floating point. A column
  that holds \<^verbatim>\<open>NULL\<close> (Python \<^verbatim>\<open>None\<close>) is \<open>None\<close>.
\<close>

type_synonym pystr = "nat list"

record user_row =
  username :: pystr
  password_hash :: pystr
  age :: "int option"
  height_cm :: "rat option"
  weight_kg :: "rat option"
  security_q :: "pystr option"
  security_a_hash :: "pystr option"

record daily_row =
  d_username :: "pystr option"
  date :: pystr
  sleep_hrs :: "rat option"
  weight :: "rat option"
  calories :: "rat option"
  steps :: "int option"
  d_note :: "pystr option"

record goals_row =
  g_username :: pystr
  weight_goal :: "rat option"
  steps_goal :: "int option"
  calories_goal :: "rat option"
  sleep_goal :: "rat option"

text \<open>
  Truthiness of an optional number, as Python's \<^verbatim>\<open>if x:\<close> reads it:
  \<^verbatim>\<open>None\<close>, \<^verbatim>\<open>0\<close> and \<^verbatim>\<open>0.0\<close> are false.
\<close>

definition truthy :: "'a::zero option \<Rightarrow> bool" where
  "truthy x = (case x of None \<Rightarrow> False | Some v \<Rightarrow> v \<noteq> 0)"

text \<open>Truthiness of an optional string: \<^verbatim>\<open>None\<close> and the empty string are false.\<close>

definition truthy_str :: "pystr option \<Rightarrow> bool" where
  "truthy_str x = (case x of None \<Rightarrow> False | Some s \<Rightarrow> s \<noteq> [])"

section \<open>Body indices\<close>

text \<open>
  \<^verbatim>\<open>round(x, n)\<close> on a float rounds the exact value of \<open>x\<close> to \<open>n\<close> decimals,
  a tie going to the even neighbour.
\<close>

definition round_half_even :: "rat \<Rightarrow> int" where
  "round_half_even x =
     (let f = \<lfloor>x\<rfloor>; d = x - of_int f
      in if d < 1 / 2 then f
         else if 1 / 2 < d then f + 1
         else if even f then f else f + 1)"

definition py_round :: "rat \<Rightarrow> nat \<Rightarrow> rat" where
  "py_round x n = of_int (round_half_even (x * 10 ^ n)) / 10 ^ n"

text \<open>
  \<^verbatim>\<open>calc_bmi\<close>: the division raises \<^verbatim>\<open>ZeroDivisionError\<close> when \<^verbatim>\<open>h*h\<close> is
  zero, and the handler returns \<^verbatim>\<open>None\<close>.
\<close>

definition calc_bmi :: "rat \<Rightarrow> rat \<Rightarrow> rat option" where
  "calc_bmi w_kg h_cm =
     (let h = h_cm / 100
      in if h * h = 0 then None else Some (py_round (w_kg / (h * h)) 2))"

definition bmi_category :: "rat option \<Rightarrow> string" where
  "bmi_category bmi =
     (case bmi of
        None \<Rightarrow> ''Unknown''
      | Some b \<Rightarrow>
          if b < 185 / 10 then ''Underweight''
          else if b < 25 then ''Normal''
          else if b < 30 then ''Overweight''
          else ''Obese'')"

definition calc_bmr :: "rat \<Rightarrow> rat \<Rightarrow> int \<Rightarrow> string \<Rightarrow> rat option" where
  "calc_bmr w h_cm a sex =
     (let bmr = (if sex = ''male''
                 then 10 * w + (625 / 100) * h_cm - 5 * of_int a + 5
                 else 10 * w + (625 / 100) * h_cm - 5 * of_int a - 161)
      in Some (py_round bmr 1))"

section \<open>Insights\<close>

text \<open>
  One constructor for each line \<^verbatim>\<open>refresh_insights\<close> appends to \<^verbatim>\<open>text\<close>; the
  arguments are the values the f-string formats.
\<close>

datatype line =
    NoData
  | Header nat
  | AvgSleep rat
  | AvgWeight rat
  | AvgCal rat
  | AvgSteps rat
  | WeightVsGoal rat rat
  | StepsAttain rat
  | CalAttain rat
  | SleepAttain rat
  | WeightTrend rat string
  | BMI "rat option" string
  | BMR "rat option"

text \<open>\<^verbatim>\<open>[x for x in arr if x is not None]\<close>\<close>

definition not_none :: "'a option list \<Rightarrow> 'a list" where
  "not_none arr = List.map_filter id arr"

definition numeric_avg :: "rat option list \<Rightarrow> rat option" where
  "numeric_avg arr =
     (let s = not_none arr
      in if s \<noteq> [] then Some (sum_list s / of_nat (length s)) else None)"

definition avg_lines :: "rat option \<Rightarrow> rat option \<Rightarrow> rat option \<Rightarrow> rat option \<Rightarrow> line list" where
  "avg_lines avg_sleep avg_weight avg_cal avg_steps =
     (if truthy avg_sleep then [AvgSleep (the avg_sleep)] else []) @
     (if truthy avg_weight then [AvgWeight (the avg_weight)] else []) @
     (if truthy avg_cal then [AvgCal (the avg_cal)] else []) @
     (if truthy avg_steps then [AvgSteps (the avg_steps)] else [])"

definition goal_lines ::
  "goals_row option \<Rightarrow> rat option \<Rightarrow> rat option \<Rightarrow> rat option \<Rightarrow> rat option \<Rightarrow> line list" where
  "goal_lines g avg_sleep avg_weight avg_cal avg_steps =
     (case g of
        None \<Rightarrow> []
      | Some gr \<Rightarrow>
          (if truthy (weight_goal gr) \<and> truthy avg_weight
           then [WeightVsGoal (the avg_weight) (the avg_weight - the (weight_goal gr))]
           else []) @
          (if truthy (steps_goal gr) \<and> truthy avg_steps
           then [StepsAttain (the avg_steps / of_int (the (steps_goal gr)) * 100)]
           else []) @
          (if truthy (calories_goal gr) \<and> truthy avg_cal
           then [CalAttain (the avg_cal / the (calories_goal gr) * 100)]
           else []) @
          (if truthy (sleep_goal gr) \<and> truthy avg_sleep
           then [SleepAttain (the avg_sleep / the (sleep_goal gr) * 100)]
           else []))"

definition trend_slope :: "rat list \<Rightarrow> rat" where
  "trend_slope ws =
     (let xs = map of_nat [0..<length ws];
          mean_x = sum_list xs / of_nat (length xs);
          mean_y = sum_list ws / of_nat (length ws);
          num = sum_list (map (\<lambda>(xi, yi). (xi - mean_x) * (yi - mean_y)) (zip xs ws));
          den = sum_list (map (\<lambda>xi. (xi - mean_x) ^ 2) xs)
      in if den \<noteq> 0 then num / den else 0)"

definition trend_class :: "rat \<Rightarrow> string" where
  "trend_class slope =
     (if slope < 0 then ''losing'' else if 0 < slope then ''gaining'' else ''stable'')"

definition trend_lines :: "rat option list \<Rightarrow> line list" where
  "trend_lines weights =
     (let ws = not_none weights
      in if 3 \<le> length ws
         then (let slope = trend_slope ws in [WeightTrend slope (trend_class slope)])
         else [])"

definition body_lines :: "user_row option \<Rightarrow> line list" where
  "body_lines u =
     (case u of
        None \<Rightarrow> []
      | Some ur \<Rightarrow>
          if truthy (height_cm ur) \<and> truthy (weight_kg ur) \<and> truthy (age ur)
          then (let bmi = calc_bmi (the (weight_kg ur)) (the (height_cm ur));
                    bmr = calc_bmr (the (weight_kg ur)) (the (height_cm ur)) (the (age ur)) ''male''
                in [BMI bmi (bmi_category bmi), BMR bmr])
          else [])"

text \<open>
  \<^verbatim>\<open>refresh_insights\<close>, from the three query results it reads: \<open>rows\<close> is
  \<^verbatim>\<open>db.get_last_n_days(current_user, n=30)\<close>, \<open>g\<close> is \<^verbatim>\<open>db.get_goals(current_user)\<close>
  and \<open>u\<close> is \<^verbatim>\<open>db.get_user(current_user)\<close>. The result is the list \<^verbatim>\<open>text\<close>
  written to the widget.
\<close>

definition refresh_insights ::
  "daily_row list \<Rightarrow> goals_row option \<Rightarrow> user_row option \<Rightarrow> line list" where
  "refresh_insights rows g u =
     (if rows = [] then [NoData]
      else
        (let sleeps = map sleep_hrs rows;
             weights = map weight rows;
             cals = map calories rows;
             stepss = map (\<lambda>r. map_option of_int (steps r)) rows;
             avg_sleep = numeric_avg sleeps;
             avg_weight = numeric_avg weights;
             avg_cal = numeric_avg cals;
             avg_steps = numeric_avg stepss
         in [Header (length rows)]
            @ avg_lines avg_sleep avg_weight avg_cal avg_steps
            @ goal_lines g avg_sleep avg_weight avg_cal avg_steps
            @ trend_lines weights
            @ body_lines u))"

section \<open>Credentials\<close>

text \<open>
  Bytes are 8-bit words. An exception of the source is a value of \<open>exn\<close>; a function
  that can raise returns \<open>exn + 'a\<close>, with \<open>Inl\<close> for the exception.
\<close>

type_synonym byte = "8 word"

datatype exn =
  AttributeError | UnicodeEncodeError | UnicodeDecodeError | BinasciiError | ValueError

subsection \<open>UTF-8\<close>

text \<open>
  \<^verbatim>\<open>str.encode('utf-8')\<close> and \<^verbatim>\<open>bytes.decode('utf-8')\<close>, with the default strict
  error handling: a surrogate code point does not encode, an ill-formed sequence does
  not decode.
\<close>

definition utf8_char :: "nat \<Rightarrow> exn + byte list" where
  "utf8_char c =
     (if c < 0x80 then Inr [of_nat c]
      else if c < 0x800 then Inr [of_nat (0xC0 + c div 64), of_nat (0x80 + c mod 64)]
      else if 0xD800 \<le> c \<and> c < 0xE000 then Inl UnicodeEncodeError
      else if c < 0x10000 then
        Inr [of_nat (0xE0 + c div 4096), of_nat (0x80 + c div 64 mod 64), of_nat (0x80 + c mod 64)]
      else if c < 0x110000 then
        Inr [of_nat (0xF0 + c div 262144), of_nat (0x80 + c div 4096 mod 64),
             of_nat (0x80 + c div 64 mod 64), of_nat (0x80 + c mod 64)]
      else Inl UnicodeEncodeError)"

fun utf8_encode :: "pystr \<Rightarrow> exn + byte list" where
  "utf8_encode [] = Inr []"
| "utf8_encode (c # cs) =
     (case utf8_char c of
        Inl e \<Rightarrow> Inl e
      | Inr bs \<Rightarrow> (case utf8_encode cs of Inl e \<Rightarrow> Inl e | Inr rest \<Rightarrow> Inr (bs @ rest)))"

definition cont :: "byte \<Rightarrow> bool" where
  "cont b = (0x80 \<le> unat b \<and> unat b < 0xC0)"

definition utf8_first :: "byte list \<Rightarrow> (nat \<times> byte list) option" where
  "utf8_first bs =
     (let b0 = unat (bs ! 0) in
      if b0 < 0x80 then Some (b0, drop 1 bs)
      else if 0xC2 \<le> b0 \<and> b0 < 0xE0 then
        (if 2 \<le> length bs \<and> cont (bs ! 1)
         then Some ((b0 - 0xC0) * 64 + (unat (bs ! 1) - 0x80), drop 2 bs) else None)
      else if 0xE0 \<le> b0 \<and> b0 < 0xF0 then
        (if 3 \<le> length bs \<and> cont (bs ! 1) \<and> cont (bs ! 2) then
           (let c = (b0 - 0xE0) * 4096 + (unat (bs ! 1) - 0x80) * 64 + (unat (bs ! 2) - 0x80) in
            if 0x800 \<le> c \<and> \<not> (0xD800 \<le> c \<and> c < 0xE000) then Some (c, drop 3 bs) else None)
         else None)
      else if 0xF0 \<le> b0 \<and> b0 < 0xF5 then
        (if 4 \<le> length bs \<and> cont (bs ! 1) \<and> cont (bs ! 2) \<and> cont (bs ! 3) then
           (let c = (b0 - 0xF0) * 262144 + (unat (bs ! 1) - 0x80) * 4096
                    + (unat (bs ! 2) - 0x80) * 64 + (unat (bs ! 3) - 0x80) in
            if 0x10000 \<le> c \<and> c < 0x110000 then Some (c, drop 4 bs) else None)
         else None)
      else None)"

lemma utf8_first_shorter:
  "bs \<noteq> [] \<Longrightarrow> utf8_first bs = Some (c, r) \<Longrightarrow> length r < length bs"
  unfolding utf8_first_def Let_def
  by (simp split: if_splits) auto

function utf8_decode :: "byte list \<Rightarrow> exn + pystr" where
  "utf8_decode bs =
     (if bs = [] then Inr []
      else
        (case utf8_first bs of
           None \<Rightarrow> Inl UnicodeDecodeError
         | Some (c, r) \<Rightarrow>
             (case utf8_decode r of Inl e \<Rightarrow> Inl e | Inr cs \<Rightarrow> Inr (c # cs))))"
  by pat_completeness auto
termination
  by (relation "measure length") (auto dest: utf8_first_shorter)

declare utf8_decode.simps [simp del]

subsection \<open>Base64\<close>

text \<open>
  \<^verbatim>\<open>base64.b64encode\<close> and \<^verbatim>\<open>base64.b64decode\<close> with their default arguments.
  The decoder is the loop of \<^verbatim>\<open>binascii.a2b_base64\<close> in its non-strict mode: a
  character outside the alphabet is skipped, a pad character ends the input once it
  completes a quad, and leftover sextets at the end of the input raise
  \<^verbatim>\<open>binascii.Error\<close>.
\<close>

definition b2a :: "nat \<Rightarrow> byte" where
  "b2a i =
     (if i < 26 then of_nat (65 + i)
      else if i < 52 then of_nat (71 + i)
      else if i < 62 then of_nat (i - 4)
      else if i = 62 then 43 else 47)"

definition a2b :: "byte \<Rightarrow> nat option" where
  "a2b ch =
     (let c = unat ch in
      if 65 \<le> c \<and> c \<le> 90 then Some (c - 65)
      else if 97 \<le> c \<and> c \<le> 122 then Some (c - 71)
      else if 48 \<le> c \<and> c \<le> 57 then Some (c + 4)
      else if c = 43 then Some 62
      else if c = 47 then Some 63
      else None)"

fun b64encode :: "byte list \<Rightarrow> byte list" where
  "b64encode [] = []"
| "b64encode [x] =
     [b2a (unat x div 4), b2a (unat x mod 4 * 16), 61, 61]"
| "b64encode [x, y] =
     [b2a (unat x div 4), b2a (unat x mod 4 * 16 + unat y div 16), b2a (unat y mod 16 * 4), 61]"
| "b64encode (x # y # z # rest) =
     b2a (unat x div 4) # b2a (unat x mod 4 * 16 + unat y div 16)
       # b2a (unat y mod 16 * 4 + unat z div 64) # b2a (unat z mod 64) # b64encode rest"

fun a2b_base64 :: "byte list \<Rightarrow> nat \<Rightarrow> nat \<Rightarrow> nat \<Rightarrow> byte list \<Rightarrow> exn + byte list" where
  "a2b_base64 [] quad_pos leftchar pads out =
     (if quad_pos \<noteq> 0 then Inl BinasciiError else Inr out)"
| "a2b_base64 (ch # rest) quad_pos leftchar pads out =
     (if ch = 61 then
        (if 2 \<le> quad_pos then
           (if 4 \<le> quad_pos + (pads + 1) then Inr out
            else a2b_base64 rest quad_pos leftchar (pads + 1) out)
         else a2b_base64 rest quad_pos leftchar pads out)
      else
        (case a2b ch of
           None \<Rightarrow> a2b_base64 rest quad_pos leftchar pads out
         | Some v \<Rightarrow>
             if quad_pos = 0 then a2b_base64 rest 1 v 0 out
             else if quad_pos = 1 then
               a2b_base64 rest 2 (v mod 16) 0 (out @ [of_nat (leftchar * 4 + v div 16)])
             else if quad_pos = 2 then
               a2b_base64 rest 3 (v mod 4) 0 (out @ [of_nat (leftchar * 16 + v div 4)])
             else a2b_base64 rest 0 0 0 (out @ [of_nat (leftchar * 64 + v)])))"

definition b64decode :: "byte list \<Rightarrow> exn + byte list" where
  "b64decode s = a2b_base64 s 0 0 0 []"

subsection \<open>SHA-256\<close>

text \<open>
  \<^verbatim>\<open>hashlib.pbkdf2_hmac('sha256', password, salt, iterations)\<close> is PBKDF2 with
  HMAC-SHA-256 and a derived key of one hash block (32 bytes): SHA-256 as in FIPS 180-4,
  HMAC as in RFC 2104, PBKDF2 as in RFC 8018.
\<close>

text \<open>The round constants, eight to a row.\<close>

definition sha_k_rows :: "32 word list list" where
  "sha_k_rows =
     ([0x428a2f98, 0x71374491, 0xb5c0fbcf, 0xe9b5dba5,
       0x3956c25b, 0x59f111f1, 0x923f82a4, 0xab1c5ed5] #
      [0xd807aa98, 0x12835b01, 0x243185be, 0x550c7dc3,
       0x72be5d74, 0x80deb1fe, 0x9bdc06a7, 0xc19bf174] #
      [0xe49b69c1, 0xefbe4786, 0x0fc19dc6, 0x240ca1cc,
       0x2de92c6f, 0x4a7484aa, 0x5cb0a9dc, 0x76f988da] #
      [0x983e5152, 0xa831c66d, 0xb00327c8, 0xbf597fc7,
       0xc6e00bf3, 0xd5a79147, 0x06ca6351, 0x14292967] #
      [0x27b70a85, 0x2e1b2138, 0x4d2c6dfc, 0x53380d13,
       0x650a7354, 0x766a0abb, 0x81c2c92e, 0x92722c85] #
      [0xa2bfe8a1, 0xa81a664b, 0xc24b8b70, 0xc76c51a3,
       0xd192e819, 0xd6990624, 0xf40e3585, 0x106aa070] #
      [0x19a4c116, 0x1e376c08, 0x2748774c, 0x34b0bcb5,
       0x391c0cb3, 0x4ed8aa4a, 0x5b9cca4f, 0x682e6ff3] #
      [0x748f82ee, 0x78a5636f, 0x84c87814, 0x8cc70208,
       0x90befffa, 0xa4506ceb, 0xbef9a3f7, 0xc67178f2] # [])"

definition sha_k :: "32 word list" where
  "sha_k = concat sha_k_rows"

type_synonym sha_state =
  "32 word \<times> 32 word \<times> 32 word \<times> 32 word \<times> 32 word \<times> 32 word \<times> 32 word \<times> 32 word"

definition sha_init :: sha_state where
  "sha_init = (0x6a09e667, 0xbb67ae85, 0x3c6ef372, 0xa54ff53a,
               0x510e527f, 0x9b05688c, 0x1f83d9ab, 0x5be0cd19)"

definition be32 :: "32 word \<Rightarrow> byte list" where
  "be32 w = [ucast (drop_bit 24 w), ucast (drop_bit 16 w), ucast (drop_bit 8 w), ucast w]"

definition be64 :: "nat \<Rightarrow> byte list" where
  "be64 n = map (\<lambda>i. of_nat (n div 2 ^ (8 * (7 - i)))) [0..<8]"

definition sha_pad :: "byte list \<Rightarrow> byte list" where
  "sha_pad m =
     m @ [0x80] @ replicate (nat ((55 - int (length m)) mod 64)) 0 @ be64 (8 * length m)"

fun sha_words :: "byte list \<Rightarrow> 32 word list" where
  "sha_words (a # b # c # d # rest) =
     (push_bit 24 (ucast a) OR push_bit 16 (ucast b) OR push_bit 8 (ucast c) OR ucast d)
       # sha_words rest"
| "sha_words _ = []"

definition ssig0 :: "32 word \<Rightarrow> 32 word" where
  "ssig0 x = word_rotr 7 x XOR word_rotr 18 x XOR drop_bit 3 x"

definition ssig1 :: "32 word \<Rightarrow> 32 word" where
  "ssig1 x = word_rotr 17 x XOR word_rotr 19 x XOR drop_bit 10 x"

definition bsig0 :: "32 word \<Rightarrow> 32 word" where
  "bsig0 x = word_rotr 2 x XOR word_rotr 13 x XOR word_rotr 22 x"

definition bsig1 :: "32 word \<Rightarrow> 32 word" where
  "bsig1 x = word_rotr 6 x XOR word_rotr 11 x XOR word_rotr 25 x"

fun sha_schedule :: "32 word list \<Rightarrow> nat \<Rightarrow> 32 word list" where
  "sha_schedule w 0 = w"
| "sha_schedule w (Suc n) =
     (let t = length w
      in sha_schedule
           (w @ [ssig1 (w ! (t - 2)) + w ! (t - 7) + ssig0 (w ! (t - 15)) + w ! (t - 16)]) n)"

definition sha_round :: "sha_state \<Rightarrow> 32 word \<times> 32 word \<Rightarrow> sha_state" where
  "sha_round s kw =
     (case s of (a, b, c, d, e, f, g, h) \<Rightarrow>
        (let t1 = h + bsig1 e + ((e AND f) XOR (NOT e AND g)) + fst kw + snd kw;
             t2 = bsig0 a + ((a AND b) XOR (a AND c) XOR (b AND c))
         in (t1 + t2, a, b, c, d + t1, e, f, g)))"

definition sha_block :: "sha_state \<Rightarrow> byte list \<Rightarrow> sha_state" where
  "sha_block s blk =
     (case (s, foldl sha_round s (zip sha_k (sha_schedule (sha_words blk) 48))) of
        ((a, b, c, d, e, f, g, h), (a', b', c', d', e', f', g', h')) \<Rightarrow>
          (a + a', b + b', c + c', d + d', e + e', f + f', g + g', h + h'))"

fun sha_blocks :: "sha_state \<Rightarrow> byte list \<Rightarrow> nat \<Rightarrow> sha_state" where
  "sha_blocks s m 0 = s"
| "sha_blocks s m (Suc n) = sha_blocks (sha_block s (take 64 m)) (drop 64 m) n"

definition sha256 :: "byte list \<Rightarrow> byte list" where
  "sha256 m =
     (let p = sha_pad m
      in case sha_blocks sha_init p (length p div 64) of
           (a, b, c, d, e, f, g, h) \<Rightarrow>
             be32 a @ be32 b @ be32 c @ be32 d @ be32 e @ be32 f @ be32 g @ be32 h)"

subsection \<open>HMAC and PBKDF2\<close>

definition hmac_key :: "byte list \<Rightarrow> byte list" where
  "hmac_key key =
     (let k = (if 64 < length key then sha256 key else key)
      in k @ replicate (64 - length k) 0)"

definition hmac_sha256 :: "byte list \<Rightarrow> byte list \<Rightarrow> byte list" where
  "hmac_sha256 key msg =
     (let k = hmac_key key
      in sha256 (map (\<lambda>b. b XOR 0x5c) k @ sha256 (map (\<lambda>b. b XOR 0x36) k @ msg)))"

fun pbkdf2_loop :: "byte list \<Rightarrow> nat \<Rightarrow> byte list \<Rightarrow> byte list \<Rightarrow> byte list" where
  "pbkdf2_loop password 0 u t = t"
| "pbkdf2_loop password (Suc n) u t =
     (let u' = hmac_sha256 password u
      in pbkdf2_loop password n u' (map (\<lambda>(x, y). x XOR y) (zip t u')))"

definition pbkdf2_hmac :: "byte list \<Rightarrow> byte list \<Rightarrow> nat \<Rightarrow> byte list" where
  "pbkdf2_hmac password salt iterations =
     (let u1 = hmac_sha256 password (salt @ [0, 0, 0, 1])
      in pbkdf2_loop password (iterations - 1) u1 u1)"

subsection \<open>Password hashes\<close>

definition SALT_BYTES :: nat where
  "SALT_BYTES = 16"

definition HASH_ITERS :: nat where
  "HASH_ITERS = 200000"

text \<open>\<^verbatim>\<open>secrets.compare_digest\<close>: equality of the two byte strings, in constant time.\<close>

definition compare_digest :: "byte list \<Rightarrow> byte list \<Rightarrow> bool" where
  "compare_digest a b = (a = b)"

definition hash_password :: "pystr \<Rightarrow> byte list \<Rightarrow> exn + pystr" where
  "hash_password password salt =
     (case utf8_encode password of
        Inl e \<Rightarrow> Inl e
      | Inr pw \<Rightarrow>
          (let dk = pbkdf2_hmac pw salt HASH_ITERS
           in utf8_decode (b64encode (salt @ dk))))"

text \<open>
  The body of the \<^verbatim>\<open>try\<close> in \<^verbatim>\<open>verify_password\<close>. A stored hash that is
  \<^verbatim>\<open>None\<close> has no \<^verbatim>\<open>encode\<close> and raises \<^verbatim>\<open>AttributeError\<close>.
\<close>

definition verify_password_try :: "pystr option \<Rightarrow> pystr \<Rightarrow> exn + bool" where
  "verify_password_try stored_hash password_attempt =
     (case stored_hash of
        None \<Rightarrow> Inl AttributeError
      | Some sh \<Rightarrow>
          (case utf8_encode sh of
             Inl e \<Rightarrow> Inl e
           | Inr enc \<Rightarrow>
               (case b64decode enc of
                  Inl e \<Rightarrow> Inl e
                | Inr raw \<Rightarrow>
                    (let salt = take SALT_BYTES raw;
                         stored_dk = drop SALT_BYTES raw
                     in case utf8_encode password_attempt of
                          Inl e \<Rightarrow> Inl e
                        | Inr att \<Rightarrow>
                            Inr (compare_digest stored_dk (pbkdf2_hmac att salt HASH_ITERS))))))"

text \<open>\<^verbatim>\<open>verify_password\<close>: the handler \<^verbatim>\<open>except Exception: return False\<close>.\<close>

definition verify_password :: "pystr option \<Rightarrow> pystr \<Rightarrow> bool" where
  "verify_password stored_hash password_attempt =
     (case verify_password_try stored_hash password_attempt of
        Inl e \<Rightarrow> False
      | Inr b \<Rightarrow> b)"

section \<open>The database\<close>

text \<open>
  A table is the list of its rows. \<^verbatim>\<open>fetchone\<close> after a \<^verbatim>\<open>SELECT\<close> is the first
  matching row, an \<^verbatim>\<open>UPDATE\<close> rewrites every matching row, an \<^verbatim>\<open>INSERT\<close> adds
  a row at the end.
\<close>

record db =
  users :: "user_row list"
  daily :: "daily_row list"
  goals :: "goals_row list"

definition get_user :: "db \<Rightarrow> pystr \<Rightarrow> user_row option" where
  "get_user d name = find (\<lambda>r. username r = name) (users d)"

definition create_user ::
  "db \<Rightarrow> pystr \<Rightarrow> pystr \<Rightarrow> int option \<Rightarrow> rat option \<Rightarrow> rat option \<Rightarrow> pystr option
     \<Rightarrow> pystr option \<Rightarrow> db" where
  "create_user d name ph a h w sq sa =
     d\<lparr>users := users d @
        [\<lparr>username = name, password_hash = ph, age = a, height_cm = h, weight_kg = w,
          security_q = sq, security_a_hash = sa\<rparr>]\<rparr>"

definition set_password :: "db \<Rightarrow> pystr \<Rightarrow> pystr \<Rightarrow> db" where
  "set_password d name ph =
     d\<lparr>users := map (\<lambda>r. if username r = name then r\<lparr>password_hash := ph\<rparr> else r) (users d)\<rparr>"


definition get_goals :: "db \<Rightarrow> pystr \<Rightarrow> goals_row option" where
  "get_goals d name = find (\<lambda>r. g_username r = name) (goals d)"

definition upsert_goals ::
  "db \<Rightarrow> pystr \<Rightarrow> rat option \<Rightarrow> int option \<Rightarrow> rat option \<Rightarrow> rat option \<Rightarrow> db" where
  "upsert_goals d name wg sg cg sl =
     (if find (\<lambda>r. g_username r = name) (goals d) \<noteq> None
      then d\<lparr>goals :=
             map (\<lambda>r. if g_username r = name
                       then r\<lparr>weight_goal := wg, steps_goal := sg, calories_goal := cg,
                              sleep_goal := sl\<rparr>
                       else r) (goals d)\<rparr>
      else d\<lparr>goals := goals d @
             [\<lparr>g_username = name, weight_goal = wg, steps_goal = sg, calories_goal = cg,
               sleep_goal = sl\<rparr>]\<rparr>)"

section \<open>The application\<close>

text \<open>
  What a callback of \<^verbatim>\<open>FitnessApp\<close> ends with: the message box it shows, a silent
  return, or an exception that leaves the callback.
\<close>

datatype outcome =
    Cancelled
  | MissingCredentials
  | UsernameExists
  | AccountCreated
  | UserNotFound
  | NoSecurityQuestion
  | AnswerMismatch
  | PasswordReset
  | PasswordIncorrect
  | LoggedIn
  | InvalidDate
  | EntryAdded
  | GoalsSaved
  | Raised exn

text \<open>
  The parsers of the Python library the callbacks call: \<^verbatim>\<open>float(s)\<close> and
  \<^verbatim>\<open>int(s)\<close> on a string, \<open>None\<close> where they raise \<^verbatim>\<open>ValueError\<close>, and
  whether \<^verbatim>\<open>datetime.date.fromisoformat(s)\<close> returns. A text that \<^verbatim>\<open>float\<close>
  reads as an infinity or a NaN has no rational value and is left out of the model.
\<close>

record pylib =
  py_float :: "pystr \<Rightarrow> rat option"
  py_int :: "pystr \<Rightarrow> int option"
  date_fromisoformat :: "pystr \<Rightarrow> bool"

text \<open>
  \<^verbatim>\<open>_create_account\<close>. The arguments are the texts of the signup form
  (\<open>name\<close>, \<open>a\<close>, \<open>h\<close>, \<open>w\<close> and \<open>sec_q\<close> after \<^verbatim>\<open>strip()\<close>) and the two
  salts \<^verbatim>\<open>make_salt()\<close> returns.
\<close>

definition create_account ::
  "pylib \<Rightarrow> db \<Rightarrow> pystr \<Rightarrow> pystr \<Rightarrow> pystr \<Rightarrow> pystr \<Rightarrow> pystr \<Rightarrow> pystr \<Rightarrow> pystr
     \<Rightarrow> byte list \<Rightarrow> byte list \<Rightarrow> db \<times> outcome" where
  "create_account L d name password a h w sec_q sec_a salt sa_salt =
     (if name = [] \<or> password = [] then (d, MissingCredentials)
      else if get_user d name \<noteq> None then (d, UsernameExists)
      else
        (case hash_password password salt of
           Inl e \<Rightarrow> (d, Raised e)
         | Inr ph \<Rightarrow>
             (case (if sec_a \<noteq> [] then map_sum id Some (hash_password sec_a sa_salt)
                    else Inr None) of
                Inl e \<Rightarrow> (d, Raised e)
              | Inr sec_a_hash \<Rightarrow>
                  if a \<noteq> [] \<and> py_int L a = None then (d, Raised ValueError)
                  else if h \<noteq> [] \<and> py_float L h = None then (d, Raised ValueError)
                  else if w \<noteq> [] \<and> py_float L w = None then (d, Raised ValueError)
                  else
                    (create_user d name ph
                       (if a \<noteq> [] then py_int L a else None)
                       (if h \<noteq> [] then py_float L h else None)
                       (if w \<noteq> [] then py_float L w else None)
                       (if sec_q \<noteq> [] then Some sec_q else None)
                       sec_a_hash,
                     AccountCreated))))"

text \<open>
  \<^verbatim>\<open>_forgot_password\<close>. The three dialogs answer \<open>name\<close>, \<open>answer\<close> and \<open>newpw\<close>
  (\<open>None\<close> when the dialog is cancelled); \<open>salt\<close> is what \<^verbatim>\<open>make_salt()\<close> returns.
\<close>

definition forgot_password ::
  "db \<Rightarrow> pystr option \<Rightarrow> pystr option \<Rightarrow> pystr option \<Rightarrow> byte list \<Rightarrow> db \<times> outcome" where
  "forgot_password d name answer newpw salt =
     (if \<not> truthy_str name then (d, Cancelled)
      else
        (case get_user d (the name) of
           None \<Rightarrow> (d, UserNotFound)
         | Some user \<Rightarrow>
             if \<not> truthy_str (security_q user) then (d, NoSecurityQuestion)
             else if \<not> truthy_str answer then (d, Cancelled)
             else if verify_password (security_a_hash user) (the answer) then
               (if truthy_str newpw then
                  (case hash_password (the newpw) salt of
                     Inl e \<Rightarrow> (d, Raised e)
                   | Inr ph \<Rightarrow> (set_password d (the name) ph, PasswordReset))
                else (d, Cancelled))
             else (d, AnswerMismatch)))"

text \<open>
  \<^verbatim>\<open>login\<close>: \<open>name\<close> is the username entry after \<^verbatim>\<open>strip()\<close>. The column
  \<^verbatim>\<open>password_hash\<close> is \<^verbatim>\<open>NOT NULL\<close>, so the stored hash is a string.
\<close>

definition login :: "db \<Rightarrow> pystr \<Rightarrow> pystr \<Rightarrow> outcome" where
  "login d name password =
     (case get_user d name of
        None \<Rightarrow> UserNotFound
      | Some user \<Rightarrow>
          if verify_password (Some (password_hash user)) password then LoggedIn
          else PasswordIncorrect)"





definition example_db :: db where
  "example_db =
     \<lparr>users = [\<lparr>username = [97], password_hash = [], age = None, height_cm = None,
                weight_kg = None, security_q = Some [63], security_a_hash = Some [65]\<rparr>],
      daily = [], goals = []\<rparr>"


section \<open>Properties of the insights\<close>

lemmas insights_defs =
  refresh_insights_def avg_lines_def goal_lines_def trend_lines_def body_lines_def




lemma centred_product_sum:
  fixes y :: "nat \<Rightarrow> rat"
  assumes "k \<noteq> 0"
  shows "(\<Sum>i<k. (of_nat i - (\<Sum>i<k. of_nat i) / of_nat k) * (y i - (\<Sum>i<k. y i) / of_nat k))
       = (\<Sum>i<k. of_nat i * y i) - (\<Sum>i<k. of_nat i) * (\<Sum>i<k. y i) / of_nat k"
proof -
  define mx :: rat where "mx = (\<Sum>i<k. of_nat i) / of_nat k"
  define my :: rat where "my = (\<Sum>i<k. y i) / of_nat k"
  have sx: "(\<Sum>i<k. of_nat i) = of_nat k * mx" and sy: "(\<Sum>i<k. y i) = of_nat k * my"
    using assms by (simp_all add: mx_def my_def)
  have "(\<Sum>i<k. (of_nat i - mx) * (y i - my))
      = (\<Sum>i<k. of_nat i * y i - mx * y i - my * of_nat i + mx * my)"
    by (rule sum.cong) (simp_all add: algebra_simps)
  also have "\<dots> = (\<Sum>i<k. of_nat i * y i) - mx * (\<Sum>i<k. y i) - my * (\<Sum>i<k. of_nat i)
                    + of_nat k * (mx * my)"
    by (simp add: sum.distrib sum_subtractf sum_distrib_left)
  also have "\<dots> = (\<Sum>i<k. of_nat i * y i) - of_nat k * mx * my"
    by (simp add: sx sy algebra_simps)
  finally show ?thesis
    using assms by (simp add: mx_def my_def)
qed



text \<open>
  With two or more samples the denominator of the slope is positive: the guard
  \<^verbatim>\<open>if den\<close> of the source never takes its zero branch there, and a slope of zero
  comes from a zero numerator only.
\<close>

lemma ols_denominator_positive:
  assumes k: "2 \<le> k"
  shows "0 < rat_of_nat k * (\<Sum>i<k. (of_nat i) ^ 2) - (\<Sum>i<k. of_nat i) ^ 2"
proof -
  define sx :: rat where "sx = (\<Sum>i<k. of_nat i)"
  define sxx :: rat where "sxx = (\<Sum>i<k. (of_nat i) ^ 2)"
  define m :: rat where "m = sx / of_nat k"
  have k0: "k \<noteq> 0" using k by simp
  have "rat_of_nat 1 \<le> sx"
    unfolding sx_def
    by (rule member_le_sum [of 1 "{..<k}" "\<lambda>i. rat_of_nat i"]) (use k in auto)
  then have m_pos: "0 < m"
    using k0 by (simp add: m_def)
  have den: "(\<Sum>i<k. (of_nat i - m) ^ 2) = sxx - sx * sx / of_nat k"
    using centred_product_sum [OF k0, of "\<lambda>i. of_nat i"]
    unfolding sx_def sxx_def m_def by (simp add: power2_eq_square)
  have "(rat_of_nat 0 - m) ^ 2 \<le> (\<Sum>i<k. (of_nat i - m) ^ 2)"
    by (rule member_le_sum [of 0 "{..<k}" "\<lambda>i. (rat_of_nat i - m) ^ 2"]) (use k in auto)
  moreover have "(rat_of_nat 0 - m) ^ 2 = m ^ 2"
    by (simp add: power2_eq_square)
  moreover have "0 < m ^ 2"
    using m_pos by simp
  ultimately have "0 < (\<Sum>i<k. (of_nat i - m) ^ 2)"
    by linarith
  then have "0 < sxx - sx * sx / of_nat k"
    by (simp only: den)
  then have "0 < of_nat k * (sxx - sx * sx / of_nat k)"
    using k0 by simp
  also have "of_nat k * (sxx - sx * sx / of_nat k) = of_nat k * sxx - sx ^ 2"
    using k0 by (simp add: algebra_simps power2_eq_square)
  finally show ?thesis
    by (simp add: sx_def sxx_def)
qed


text \<open>
  Claim C6. A goal-attainment line for steps, calories or sleep carries
  \<open>avg / goal * 100\<close> and appears only when the goal and the average both exist;
  an average of 8000 steps against a goal of 10000 gives 80. The weight goal is
  reported as the signed difference \<open>avg - goal\<close>.
\<close>

theorem goal_attainment_lines:
  "(StepsAttain p \<in> set (refresh_insights rows g u) \<longleftrightarrow>
      rows \<noteq> [] \<and>
      (\<exists>gr sg a. g = Some gr \<and> steps_goal gr = Some sg \<and> sg \<noteq> 0 \<and>
         numeric_avg (map (\<lambda>r. map_option of_int (steps r)) rows) = Some a \<and> a \<noteq> 0 \<and>
         p = a / of_int sg * 100))
   \<and> (CalAttain p \<in> set (refresh_insights rows g u) \<longleftrightarrow>
      rows \<noteq> [] \<and>
      (\<exists>gr cg a. g = Some gr \<and> calories_goal gr = Some cg \<and> cg \<noteq> 0 \<and>
         numeric_avg (map calories rows) = Some a \<and> a \<noteq> 0 \<and> p = a / cg * 100))
   \<and> (SleepAttain p \<in> set (refresh_insights rows g u) \<longleftrightarrow>
      rows \<noteq> [] \<and>
      (\<exists>gr sl a. g = Some gr \<and> sleep_goal gr = Some sl \<and> sl \<noteq> 0 \<and>
         numeric_avg (map sleep_hrs rows) = Some a \<and> a \<noteq> 0 \<and> p = a / sl * 100))
   \<and> (WeightVsGoal a d \<in> set (refresh_insights rows g u) \<longleftrightarrow>
      rows \<noteq> [] \<and>
      (\<exists>gr wg. g = Some gr \<and> weight_goal gr = Some wg \<and> wg \<noteq> 0 \<and>
         numeric_avg (map weight rows) = Some a \<and> a \<noteq> 0 \<and> d = a - wg))
   \<and> goal_lines
        (Some \<lparr>g_username = [97], weight_goal = None, steps_goal = Some 10000,
               calories_goal = None, sleep_goal = None\<rparr>)
        None None None (Some 8000) = [StepsAttain 80]"
proof -
  have 1: "StepsAttain p \<in> set (refresh_insights rows g u) \<longleftrightarrow>
      rows \<noteq> [] \<and>
      (\<exists>gr sg a. g = Some gr \<and> steps_goal gr = Some sg \<and> sg \<noteq> 0 \<and>
         numeric_avg (map (\<lambda>r. map_option of_int (steps r)) rows) = Some a \<and> a \<noteq> 0 \<and>
         p = a / of_int sg * 100)"
    by (auto simp: insights_defs truthy_def Let_def split: option.splits)
  have 2: "CalAttain p \<in> set (refresh_insights rows g u) \<longleftrightarrow>
      rows \<noteq> [] \<and>
      (\<exists>gr cg a. g = Some gr \<and> calories_goal gr = Some cg \<and> cg \<noteq> 0 \<and>
         numeric_avg (map calories rows) = Some a \<and> a \<noteq> 0 \<and> p = a / cg * 100)"
    by (auto simp: insights_defs truthy_def Let_def split: option.splits)
  have 3: "SleepAttain p \<in> set (refresh_insights rows g u) \<longleftrightarrow>
      rows \<noteq> [] \<and>
      (\<exists>gr sl a. g = Some gr \<and> sleep_goal gr = Some sl \<and> sl \<noteq> 0 \<and>
         numeric_avg (map sleep_hrs rows) = Some a \<and> a \<noteq> 0 \<and> p = a / sl * 100)"
    by (auto simp: insights_defs truthy_def Let_def split: option.splits)
  have 4: "WeightVsGoal a d \<in> set (refresh_insights rows g u) \<longleftrightarrow>
      rows \<noteq> [] \<and>
      (\<exists>gr wg. g = Some gr \<and> weight_goal gr = Some wg \<and> wg \<noteq> 0 \<and>
         numeric_avg (map weight rows) = Some a \<and> a \<noteq> 0 \<and> d = a - wg)"
    by (auto simp: insights_defs truthy_def Let_def split: option.splits)
  have 5: "goal_lines
        (Some \<lparr>g_username = [97], weight_goal = None, steps_goal = Some 10000,
               calories_goal = None, sleep_goal = None\<rparr>)
        None None None (Some 8000) = [StepsAttain 80]"
    by (simp add: goal_lines_def truthy_def)
  show ?thesis
    using 1 2 3 4 5 by blast
qed




text \<open>
  Claim C10. When a metric has non-null samples and their average is exactly zero, the
  output has no average line for that metric, as when it has no samples.
\<close>

theorem zero_average_omitted:
  "(numeric_avg (map sleep_hrs rows) = Some 0 \<longrightarrow>
      (\<forall>v. AvgSleep v \<notin> set (refresh_insights rows g u)))
   \<and> (numeric_avg (map weight rows) = Some 0 \<longrightarrow>
      (\<forall>v. AvgWeight v \<notin> set (refresh_insights rows g u)))
   \<and> (numeric_avg (map calories rows) = Some 0 \<longrightarrow>
      (\<forall>v. AvgCal v \<notin> set (refresh_insights rows g u)))
   \<and> (numeric_avg (map (\<lambda>r. map_option of_int (steps r)) rows) = Some 0 \<longrightarrow>
      (\<forall>v. AvgSteps v \<notin> set (refresh_insights rows g u)))"
  by (auto simp: insights_defs truthy_def Let_def split: option.splits)

theorem zero_average_omitted_witness:
  "numeric_avg (map sleep_hrs
      [\<lparr>d_username = Some [97], date = [50], sleep_hrs = Some 0, weight = Some 0,
        calories = Some 0, steps = Some 0, d_note = None\<rparr>]) = Some 0
   \<and> refresh_insights
      [\<lparr>d_username = Some [97], date = [50], sleep_hrs = Some 0, weight = Some 0,
        calories = Some 0, steps = Some 0, d_note = None\<rparr>] None None = [Header 1]
   \<and> (\<forall>v. AvgSleep v \<notin> set (refresh_insights
      [\<lparr>d_username = Some [97], date = [50], sleep_hrs = Some 0, weight = Some 0,
        calories = Some 0, steps = Some 0, d_note = None\<rparr>] None None))"
  using zero_average_omitted
    [of "[\<lparr>d_username = Some [97], date = [50], sleep_hrs = Some 0, weight = Some 0,
        calories = Some 0, steps = Some 0, d_note = None\<rparr>]" None None]
  by (simp add: insights_defs truthy_def numeric_avg_def not_none_def List.map_filter_def)

section \<open>Properties of the tables and the callbacks\<close>


lemma find_append_new:
  "find P xs = None \<Longrightarrow> find P (xs @ [x]) = (if P x then Some x else None)"
  by (induction xs) (auto split: if_splits)



text \<open>The rows of the other users are as they were.\<close>

lemma upsert_goals_others:
  assumes ne: "other \<noteq> name"
  shows "get_goals (upsert_goals d name wg sg cg sl) other = get_goals d other"
proof -
  have 1: "find (\<lambda>r. g_username r = other)
     (map (\<lambda>r. if g_username r = name
                then r\<lparr>weight_goal := wg, steps_goal := sg, calories_goal := cg, sleep_goal := sl\<rparr>
                else r) rs) = find (\<lambda>r. g_username r = other) rs" for rs
    using ne by (induction rs) auto
  have 2: "find (\<lambda>r. g_username r = other) (rs @ [\<lparr>g_username = name, weight_goal = wg,
      steps_goal = sg, calories_goal = cg, sleep_goal = sl\<rparr>])
        = find (\<lambda>r. g_username r = other) rs" for rs
    using ne by (induction rs) auto
  show ?thesis
    by (simp add: get_goals_def upsert_goals_def 1 2)
qed

text \<open>
  Claim C3. For a user with a security question set, a supplied answer that does not
  verify against the stored answer hash leaves the database, and with it the stored
  password hash, as it was.
\<close>

theorem wrong_answer_keeps_password_hash:
  "get_user d name = Some user \<Longrightarrow> truthy_str (security_q user) \<Longrightarrow>
   \<not> verify_password (security_a_hash user) answer \<Longrightarrow>
   fst (forgot_password d (Some name) (Some answer) newpw salt) = d
   \<and> map_option password_hash
        (get_user (fst (forgot_password d (Some name) (Some answer) newpw salt)) name)
      = Some (password_hash user)"
  by (auto simp: forgot_password_def truthy_str_def)

theorem wrong_answer_keeps_password_hash_witness:
  "get_user example_db [97] = Some (hd (users example_db))
   \<and> truthy_str (security_q (hd (users example_db)))
   \<and> \<not> verify_password (security_a_hash (hd (users example_db))) [120]
   \<and> forgot_password example_db (Some [97]) (Some [120]) (Some [110]) [] =
       (example_db, AnswerMismatch)
   \<and> fst (forgot_password example_db (Some [97]) (Some [120]) (Some [110]) []) = example_db"
proof -
  have u: "get_user example_db [97] = Some (hd (users example_db))"
    by (simp add: get_user_def example_db_def)
  have q: "truthy_str (security_q (hd (users example_db)))"
    by (simp add: truthy_str_def example_db_def)
  have v: "\<not> verify_password (security_a_hash (hd (users example_db))) [120]"
    by (simp add: example_db_def verify_password_def verify_password_try_def utf8_char_def
        b64decode_def a2b_def)
  have o: "forgot_password example_db (Some [97]) (Some [120]) (Some [110]) [] =
       (example_db, AnswerMismatch)"
    using u q v by (simp add: forgot_password_def truthy_str_def)
  show ?thesis
    using wrong_answer_keeps_password_hash [OF u q v, of "Some [110]" "[]"] u q v o by simp
qed




section \<open>Properties of the credentials\<close>

lemma unat_b2a:
  "i < 64 \<Longrightarrow> unat (b2a i) =
     (if i < 26 then 65 + i else if i < 52 then 71 + i else if i < 62 then i - 4
      else if i = 62 then 43 else 47)"
  by (simp add: b2a_def unat_of_nat del: of_nat_add of_nat_diff)

lemma a2b_b2a: "i < 64 \<Longrightarrow> a2b (b2a i) = Some i"
  by (auto simp: a2b_def unat_b2a Let_def)

lemma b2a_not_pad: "i < 64 \<Longrightarrow> b2a i \<noteq> 61"
proof
  assume "i < 64" "b2a i = 61"
  then have "unat (b2a i) = 61" by simp
  with \<open>i < 64\<close> show False by (auto simp: unat_b2a split: if_splits)
qed

lemma b2a_ascii: "i < 64 \<Longrightarrow> unat (b2a i) < 128"
  by (auto simp: unat_b2a)

lemma byte_bound: "unat (x :: byte) < 256"
  using unsigned_less [of x, where ?'a = nat] by simp

lemma div_shift: "k < n \<Longrightarrow> (m * n + k) div n = (m::nat)"
  by simp

lemma mod_shift: "k < n \<Longrightarrow> (m * n + k) mod n = (k::nat)"
  by simp

lemma byte_parts:
  fixes x :: byte
  shows "unat x div 4 < 64" "unat x div 16 < 16" "unat x div 64 < 4"
    "unat x mod 4 < 4" "unat x mod 16 < 16" "unat x mod 64 < 64"
  using byte_bound [of x] by (simp_all add: less_mult_imp_div_less)

lemma sextets:
  fixes x y z :: byte
  shows "unat x mod 4 * 16 + unat y div 16 < 64"
    "unat y mod 16 * 4 + unat z div 64 < 64"
    "unat x mod 4 * 16 < 64" "unat y mod 16 * 4 < 64"
proof -
  have "unat x mod 4 < 4" "unat y mod 16 < 16"
    by (rule mod_less_divisor, simp)+
  moreover have "unat y div 16 < 16" "unat z div 64 < 4"
    by (rule byte_parts)+
  ultimately show "unat x mod 4 * 16 + unat y div 16 < 64"
    "unat y mod 16 * 4 + unat z div 64 < 64"
    "unat x mod 4 * 16 < 64" "unat y mod 16 * 4 < 64"
    by linarith+
qed

lemma rebuild:
  fixes x y z :: byte
  shows "(of_nat (unat x div 4 * 4 + (unat x mod 4 * 16 + unat y div 16) div 16) :: byte) = x"
    "(of_nat ((unat x mod 4 * 16 + unat y div 16) mod 16 * 16 + (unat y mod 16 * 4 + unat z div 64) div 4) :: byte) = y"
    "(of_nat ((unat y mod 16 * 4 + unat z div 64) mod 4 * 64 + unat z mod 64) :: byte) = z"
    "(of_nat (unat x div 4 * 4 + (unat x mod 4 * 16) div 16) :: byte) = x"
    "(of_nat ((unat x mod 4 * 16 + unat y div 16) mod 16 * 16 + (unat y mod 16 * 4) div 4) :: byte) = y"
proof -
  have 1: "unat x div 4 * 4 + (unat x mod 4 * 16 + unat y div 16) div 16 = unat x"
    by (simp only: div_shift [OF byte_parts(2)] div_mult_mod_eq)
  have 2: "(unat x mod 4 * 16 + unat y div 16) mod 16 * 16 + (unat y mod 16 * 4 + unat z div 64) div 4 = unat y"
    by (simp only: mod_shift [OF byte_parts(2)] div_shift [OF byte_parts(3)] div_mult_mod_eq)
  have 3: "(unat y mod 16 * 4 + unat z div 64) mod 4 * 64 + unat z mod 64 = unat z"
    by (simp only: mod_shift [OF byte_parts(3)] div_mult_mod_eq)
  have 4: "unat x div 4 * 4 + (unat x mod 4 * 16) div 16 = unat x"
    by simp
  have 5: "(unat x mod 4 * 16 + unat y div 16) mod 16 * 16 + (unat y mod 16 * 4) div 4 = unat y"
  proof -
    have "(unat y mod 16 * 4) div 4 = unat y mod 16" by simp
    then show ?thesis
      by (simp only: mod_shift [OF byte_parts(2)] div_mult_mod_eq)
  qed
  show "(of_nat (unat x div 4 * 4 + (unat x mod 4 * 16 + unat y div 16) div 16) :: byte) = x"
    unfolding 1 by simp
  show "(of_nat ((unat x mod 4 * 16 + unat y div 16) mod 16 * 16 + (unat y mod 16 * 4 + unat z div 64) div 4) :: byte) = y"
    unfolding 2 by simp
  show "(of_nat ((unat y mod 16 * 4 + unat z div 64) mod 4 * 64 + unat z mod 64) :: byte) = z"
    unfolding 3 by simp
  show "(of_nat (unat x div 4 * 4 + (unat x mod 4 * 16) div 16) :: byte) = x"
    unfolding 4 by simp
  show "(of_nat ((unat x mod 4 * 16 + unat y div 16) mod 16 * 16 + (unat y mod 16 * 4) div 4) :: byte) = y"
    unfolding 5 by simp
qed

lemma quad_full:
  assumes "c0 < 64" "c1 < 64" "c2 < 64" "c3 < 64"
  shows "a2b_base64 (b2a c0 # b2a c1 # b2a c2 # b2a c3 # rest) 0 l p out =
         a2b_base64 rest 0 0 0
           (out @ [of_nat (c0 * 4 + c1 div 16), of_nat (c1 mod 16 * 16 + c2 div 4),
                   of_nat (c2 mod 4 * 64 + c3)])"
  using assms by (simp add: a2b_b2a b2a_not_pad)

lemma quad_two_pads:
  assumes "c0 < 64" "c1 < 64"
  shows "a2b_base64 [b2a c0, b2a c1, 61, 61] 0 l p out = Inr (out @ [of_nat (c0 * 4 + c1 div 16)])"
  using assms by (simp add: a2b_b2a b2a_not_pad)

lemma quad_one_pad:
  assumes "c0 < 64" "c1 < 64" "c2 < 64"
  shows "a2b_base64 [b2a c0, b2a c1, b2a c2, 61] 0 l p out =
         Inr (out @ [of_nat (c0 * 4 + c1 div 16), of_nat (c1 mod 16 * 16 + c2 div 4)])"
  using assms by (simp add: a2b_b2a b2a_not_pad)

lemma a2b_base64_b64encode: "a2b_base64 (b64encode bs) 0 0 0 out = Inr (out @ bs)"
proof (induction bs arbitrary: out rule: b64encode.induct)
  case 1
  show ?case by simp
next
  case (2 x)
  show ?case
    unfolding b64encode.simps
    by (simp only: quad_two_pads [OF byte_parts(1) sextets(3)] rebuild)
next
  case (3 x y)
  show ?case
    unfolding b64encode.simps
    by (simp only: quad_one_pad [OF byte_parts(1) sextets(1) sextets(4)] rebuild)
next
  case (4 x y z rest)
  show ?case
    unfolding b64encode.simps
    by (simp only: quad_full [OF byte_parts(1) sextets(1) sextets(2) byte_parts(6)] rebuild "4.IH"
        append_assoc append_Cons append_Nil)
qed

lemma b64decode_b64encode: "b64decode (b64encode bs) = Inr bs"
  by (simp add: b64decode_def a2b_base64_b64encode)

lemma b64encode_ascii: "b \<in> set (b64encode bs) \<Longrightarrow> unat b < 128"
  by (induction bs rule: b64encode.induct)
    (auto simp: b2a_ascii byte_parts sextets)

lemma utf8_decode_ascii:
  "(\<And>b. b \<in> set bs \<Longrightarrow> unat b < 128) \<Longrightarrow> utf8_decode bs = Inr (map unat bs)"
proof (induction bs)
  case Nil
  show ?case by (subst utf8_decode.simps) simp
next
  case (Cons b bs)
  have b: "unat b < 128" by (rule Cons.prems) simp
  have rest: "utf8_decode bs = Inr (map unat bs)"
    by (rule Cons.IH) (simp add: Cons.prems)
  have first: "utf8_first (b # bs) = Some (unat b, bs)"
    using b by (simp add: utf8_first_def Let_def)
  show ?case
    by (subst utf8_decode.simps) (simp add: first rest)
qed

lemma utf8_encode_ascii:
  "(\<And>b. b \<in> set bs \<Longrightarrow> unat b < 128) \<Longrightarrow> utf8_encode (map unat bs) = Inr bs"
proof (induction bs)
  case Nil
  show ?case by simp
next
  case (Cons b bs)
  have b: "unat b < 128" by (rule Cons.prems) simp
  have rest: "utf8_encode (map unat bs) = Inr bs"
    by (rule Cons.IH) (simp add: Cons.prems)
  show ?case
    using b by (simp add: utf8_char_def rest)
qed

lemma hash_password_eq:
  "hash_password password salt =
     (case utf8_encode password of
        Inl e \<Rightarrow> Inl e
      | Inr pw \<Rightarrow> Inr (map unat (b64encode (salt @ pbkdf2_hmac pw salt HASH_ITERS))))"
  by (simp add: hash_password_def Let_def utf8_decode_ascii b64encode_ascii split: sum.splits)

lemma verify_stored:
  assumes "length salt = SALT_BYTES"
  shows "verify_password_try (Some (map unat (b64encode (salt @ dk)))) attempt =
     (case utf8_encode attempt of
        Inl e \<Rightarrow> Inl e
      | Inr att \<Rightarrow> Inr (dk = pbkdf2_hmac att salt HASH_ITERS))"
  using assms
  by (simp add: verify_password_try_def utf8_encode_ascii b64encode_ascii b64decode_b64encode
      compare_digest_def Let_def split: sum.splits)

lemma length_sha256: "length (sha256 m) = 32"
  by (simp add: sha256_def Let_def be32_def split: prod.splits)

lemma length_hmac_sha256: "length (hmac_sha256 key msg) = 32"
  by (simp add: hmac_sha256_def Let_def length_sha256)

lemma length_pbkdf2_loop:
  "length t = 32 \<Longrightarrow> length (pbkdf2_loop password n u t) = 32"
  by (induction n arbitrary: u t) (simp_all add: Let_def length_hmac_sha256)

lemma length_pbkdf2_hmac: "length (pbkdf2_hmac password salt n) = 32"
  by (simp add: pbkdf2_hmac_def Let_def length_pbkdf2_loop length_hmac_sha256)

lemma hmac_sha256_key_cong:
  "hmac_key p = hmac_key q \<Longrightarrow> hmac_sha256 p msg = hmac_sha256 q msg"
  by (simp add: hmac_sha256_def)

lemma pbkdf2_loop_key_cong:
  "hmac_key p = hmac_key q \<Longrightarrow> pbkdf2_loop p n u t = pbkdf2_loop q n u t"
  by (induction n arbitrary: u t) (simp_all add: hmac_sha256_key_cong [of p q])

lemma pbkdf2_hmac_key_cong:
  "hmac_key p = hmac_key q \<Longrightarrow> pbkdf2_hmac p salt n = pbkdf2_hmac q salt n"
  by (simp add: pbkdf2_hmac_def hmac_sha256_key_cong [of p q] pbkdf2_loop_key_cong [of p q])

lemma hmac_key_trailing_zero: "hmac_key [97] = hmac_key [97, 0]"
  by code_simp

text \<open>
  Claim C1, as the code has it. For a salt of \<^verbatim>\<open>SALT_BYTES\<close> bytes, the hash
  \<^verbatim>\<open>hash_password\<close> returns verifies the password it was made from; another string
  verifies exactly when it encodes and PBKDF2 derives the same key from it under the
  stored salt, and is rejected otherwise.
\<close>

theorem verify_after_hash:
  "length salt = SALT_BYTES \<Longrightarrow> hash_password password salt = Inr h \<Longrightarrow>
   verify_password (Some h) password
   \<and> (verify_password (Some h) attempt \<longleftrightarrow>
        (case utf8_encode attempt of
           Inl e \<Rightarrow> False
         | Inr att \<Rightarrow> pbkdf2_hmac att salt HASH_ITERS
                       = pbkdf2_hmac (projr (utf8_encode password)) salt HASH_ITERS))"
  by (auto simp: hash_password_eq verify_password_def verify_stored split: sum.splits)

theorem verify_after_hash_witness:
  "length (replicate 16 (0 :: byte)) = SALT_BYTES
   \<and> (\<exists>h. hash_password [97] (replicate 16 0) = Inr h
          \<and> verify_password (Some h) [97] \<and> \<not> verify_password (Some h) [55296])"
proof -
  have len: "length (replicate 16 (0 :: byte)) = SALT_BYTES"
    by (simp add: SALT_BYTES_def)
  obtain h where h: "hash_password [97] (replicate 16 0) = Inr h"
    by (simp add: hash_password_eq utf8_char_def)
  have bad: "utf8_encode [55296] = Inl UnicodeEncodeError"
    by (simp add: utf8_char_def)
  show ?thesis
    using verify_after_hash [OF len h, of "[55296]"] len h bad by auto
qed

text \<open>
  Claim C1 as stated fails. HMAC pads its key with zero bytes up to the block length,
  so the passwords \<^verbatim>\<open>a\<close> and \<^verbatim>\<open>a\x00\<close> give the same HMAC key, hence the same
  derived key: the hash stored for \<^verbatim>\<open>a\<close> verifies the different string
  \<^verbatim>\<open>a\x00\<close>.
\<close>

theorem trailing_zero_password_counterexample:
  "hash_password [97] (replicate 16 0)
     = Inr (map unat (b64encode (replicate 16 0 @ pbkdf2_hmac [97] (replicate 16 0) HASH_ITERS)))
   \<and> [97, 0] \<noteq> [97 :: nat]
   \<and> verify_password
        (Some (map unat (b64encode (replicate 16 0 @ pbkdf2_hmac [97] (replicate 16 0) HASH_ITERS))))
        [97, 0]"
proof -
  have k: "pbkdf2_hmac [97, 0] (replicate 16 0) HASH_ITERS = pbkdf2_hmac [97] (replicate 16 0) HASH_ITERS"
    by (rule pbkdf2_hmac_key_cong) (simp add: hmac_key_trailing_zero)
  have len: "length (replicate 16 (0 :: byte)) = SALT_BYTES"
    by (simp add: SALT_BYTES_def)
  have h: "hash_password [97] (replicate 16 0)
     = Inr (map unat (b64encode (replicate 16 0 @ pbkdf2_hmac [97] (replicate 16 0) HASH_ITERS)))"
    by (simp add: hash_password_eq utf8_char_def)
  have v: "verify_password
        (Some (map unat (b64encode (replicate 16 0 @ pbkdf2_hmac [97] (replicate 16 0) HASH_ITERS))))
        [97, 0]"
    by (simp add: verify_password_def verify_stored [OF len] utf8_char_def k)
  show ?thesis using h v by simp
qed

text \<open>
  Claim C7. \<^verbatim>\<open>verify_password\<close> returns a boolean on every stored hash and every
  attempt, and it is \<open>False\<close> whenever the body raises: for a missing hash, a hash or
  an attempt that does not encode, a hash that is not base64, and also for a decoded
  hash of the wrong length.
\<close>

theorem verify_password_total:
  "verify_password None attempt = False
   \<and> (utf8_encode sh = Inl e \<longrightarrow> verify_password (Some sh) attempt = False)
   \<and> (utf8_encode sh = Inr enc \<and> b64decode enc = Inl e \<longrightarrow>
        verify_password (Some sh) attempt = False)
   \<and> (utf8_encode sh = Inr enc \<and> b64decode enc = Inr raw \<and> length raw \<noteq> SALT_BYTES + 32 \<longrightarrow>
        verify_password (Some sh) attempt = False)
   \<and> (utf8_encode attempt = Inl e \<longrightarrow> verify_password stored attempt = False)
   \<and> (verify_password stored attempt \<longleftrightarrow> verify_password_try stored attempt = Inr True)"
proof -
  have 1: "verify_password None attempt = False"
    by (simp add: verify_password_def verify_password_try_def)
  have 2: "utf8_encode sh = Inl e \<longrightarrow> verify_password (Some sh) attempt = False"
    by (simp add: verify_password_def verify_password_try_def)
  have 3: "utf8_encode sh = Inr enc \<and> b64decode enc = Inl e \<longrightarrow>
        verify_password (Some sh) attempt = False"
    by (simp add: verify_password_def verify_password_try_def)
  have 4: "utf8_encode sh = Inr enc \<and> b64decode enc = Inr raw \<and> length raw \<noteq> SALT_BYTES + 32 \<longrightarrow>
        verify_password (Some sh) attempt = False"
  proof (intro impI, elim conjE)
    assume a: "utf8_encode sh = Inr enc" "b64decode enc = Inr raw" "length raw \<noteq> SALT_BYTES + 32"
    have ne: "length (drop SALT_BYTES raw) \<noteq> 32" using a(3) by auto
    have "drop SALT_BYTES raw \<noteq> pbkdf2_hmac att (take SALT_BYTES raw) HASH_ITERS" for att
    proof
      assume "drop SALT_BYTES raw = pbkdf2_hmac att (take SALT_BYTES raw) HASH_ITERS"
      then have "length (drop SALT_BYTES raw) = 32"
        by (simp only: length_pbkdf2_hmac)
      with ne show False by simp
    qed
    then show "verify_password (Some sh) attempt = False"
      using a(1,2)
      by (simp add: verify_password_def verify_password_try_def compare_digest_def Let_def
          split: sum.splits)
  qed
  have 5: "utf8_encode attempt = Inl e \<longrightarrow> verify_password stored attempt = False"
    by (simp add: verify_password_def verify_password_try_def Let_def split: option.splits sum.splits)
  have 6: "verify_password stored attempt \<longleftrightarrow> verify_password_try stored attempt = Inr True"
    by (simp add: verify_password_def split: sum.splits)
  show ?thesis using 1 2 3 4 5 6 by blast
qed

theorem verify_password_total_witness:
  "verify_password None [120] = False
   \<and> utf8_encode [55296] = Inl UnicodeEncodeError
   \<and> verify_password (Some [55296]) [120] = False
   \<and> utf8_encode [65] = Inr [65] \<and> b64decode [65] = Inl BinasciiError
   \<and> verify_password (Some [65]) [120] = False
   \<and> utf8_encode [81, 81, 61, 61] = Inr [81, 81, 61, 61]
   \<and> b64decode [81, 81, 61, 61] = Inr [65] \<and> length [65 :: byte] \<noteq> SALT_BYTES + 32
   \<and> verify_password (Some [81, 81, 61, 61]) [120] = False
   \<and> verify_password (Some [81, 81, 61, 61]) [55296] = False"
proof -
  have e1: "utf8_encode [55296] = Inl UnicodeEncodeError"
    by (simp add: utf8_char_def)
  have e2: "utf8_encode [65] = Inr [65]"
    by (simp add: utf8_char_def)
  have d2: "b64decode [65] = Inl BinasciiError"
    by (simp add: b64decode_def a2b_def)
  have e3: "utf8_encode [81, 81, 61, 61] = Inr [81, 81, 61, 61]"
    by (simp add: utf8_char_def)
  have d3: "b64decode [81, 81, 61, 61] = Inr [65]"
    by (simp add: b64decode_def a2b_def)
  have l3: "length [65 :: byte] \<noteq> SALT_BYTES + 32"
    by (simp add: SALT_BYTES_def)
  show ?thesis
    using verify_password_total [of "[120]" "[55296]" UnicodeEncodeError "[]" "[]" None]
      verify_password_total [of "[120]" "[65]" BinasciiError "[65]" "[]" None]
      verify_password_total [of "[120]" "[81, 81, 61, 61]" BinasciiError "[81, 81, 61, 61]" "[65]" None]
      verify_password_total [of "[55296]" "[65]" UnicodeEncodeError "[65]" "[]" "Some [81, 81, 61, 61]"]
      e1 e2 d2 e3 d3 l3
    by simp
qed

lemma hash_verifies:
  "length salt = SALT_BYTES \<Longrightarrow> hash_password password salt = Inr h \<Longrightarrow>
   verify_password (Some h) password"
  by (auto simp: hash_password_eq verify_password_def verify_stored split: sum.splits)

lemma get_user_create_user:
  "get_user d name = None \<Longrightarrow>
   map_option password_hash (get_user (create_user d name ph a h w sq sa) name) = Some ph"
  by (simp add: get_user_def create_user_def find_append_new)

lemma find_set_password:
  "find (\<lambda>r. username r = name)
     (map (\<lambda>r. if username r = name then r\<lparr>password_hash := ph\<rparr> else r) rs)
   = map_option (\<lambda>r. r\<lparr>password_hash := ph\<rparr>) (find (\<lambda>r. username r = name) rs)"
  by (induction rs) auto

lemma get_user_set_password:
  "map_option password_hash (get_user (set_password d name ph) name)
     = map_option (\<lambda>r. ph) (get_user d name)"
  by (simp add: get_user_def set_password_def find_set_password option.map_comp comp_def)

text \<open>
  The two callbacks that store a password hash: after an account is created, and after a
  password is reset, logging in with that password succeeds.
\<close>

lemma create_account_created:
  assumes ok: "snd (create_account L d name password a h w sq sa salt sa_salt) = AccountCreated"
  shows "\<exists>ph a' h' w' sq' sa'. hash_password password salt = Inr ph \<and> get_user d name = None \<and>
           fst (create_account L d name password a h w sq sa salt sa_salt)
             = create_user d name ph a' h' w' sq' sa'"
proof (cases "name = [] \<or> password = [] \<or> get_user d name \<noteq> None")
  case True
  with ok show ?thesis by (auto simp: create_account_def)
next
  case False
  then have pre: "name \<noteq> []" "password \<noteq> []" "get_user d name = None" by auto
  show ?thesis
  proof (cases "hash_password password salt")
    case (Inl e)
    with ok pre show ?thesis by (simp add: create_account_def)
  next
    case (Inr ph)
    show ?thesis
    proof (cases "if sa \<noteq> [] then map_sum id Some (hash_password sa sa_salt) else Inr None")
      case (Inl e)
      with ok pre Inr show ?thesis by (simp add: create_account_def)
    next
      case sec: (Inr sec_a_hash)
      let ?bad = "(a \<noteq> [] \<and> py_int L a = None) \<or> (h \<noteq> [] \<and> py_float L h = None)
                  \<or> (w \<noteq> [] \<and> py_float L w = None)"
      show ?thesis
      proof (cases ?bad)
        case True
        with ok pre Inr sec show ?thesis
          by (simp add: create_account_def split: if_splits)
      next
        case False
        then have n: "\<not> (a \<noteq> [] \<and> py_int L a = None)" "\<not> (h \<noteq> [] \<and> py_float L h = None)"
          "\<not> (w \<noteq> [] \<and> py_float L w = None)"
          by blast+
        have
          "fst (create_account L d name password a h w sq sa salt sa_salt) =
             create_user d name ph
               (if a \<noteq> [] then py_int L a else None)
               (if h \<noteq> [] then py_float L h else None)
               (if w \<noteq> [] then py_float L w else None)
               (if sq \<noteq> [] then Some sq else None) sec_a_hash"
          unfolding create_account_def
          by (simp only: pre Inr sec n if_False sum.case fst_conv simp_thms option.distinct)
        with Inr pre show ?thesis by blast
      qed
    qed
  qed
qed

lemma create_account_then_login:
  assumes len: "length salt = SALT_BYTES"
    and ok: "snd (create_account L d name password a h w sq sa salt sa_salt) = AccountCreated"
  shows "login (fst (create_account L d name password a h w sq sa salt sa_salt)) name password
           = LoggedIn"
proof -
  from create_account_created [OF ok] obtain ph a' h' w' sq' sa' where
    ph: "hash_password password salt = Inr ph" and none: "get_user d name = None" and
    d': "fst (create_account L d name password a h w sq sa salt sa_salt)
           = create_user d name ph a' h' w' sq' sa'"
    by blast
  have "map_option password_hash (get_user (create_user d name ph a' h' w' sq' sa') name) = Some ph"
    by (rule get_user_create_user [OF none])
  then obtain r where "get_user (create_user d name ph a' h' w' sq' sa') name = Some r"
    "password_hash r = ph" by auto
  then show ?thesis
    unfolding d' using hash_verifies [OF len ph]
    by (simp add: login_def)
qed

lemma reset_then_login:
  assumes len: "length salt = SALT_BYTES"
    and ok: "snd (forgot_password d (Some name) answer (Some newpw) salt) = PasswordReset"
  shows "login (fst (forgot_password d (Some name) answer (Some newpw) salt)) name newpw
           = LoggedIn"
proof (cases "get_user d name")
  case None
  with ok show ?thesis by (simp add: forgot_password_def split: if_splits)
next
  case (Some user)
  show ?thesis
  proof (cases "hash_password newpw salt")
    case (Inl e)
    with ok Some show ?thesis by (simp add: forgot_password_def split: if_splits)
  next
    case (Inr ph)
    with ok Some have d': "fst (forgot_password d (Some name) answer (Some newpw) salt)
        = set_password d name ph"
      by (simp add: forgot_password_def split: if_splits)
    have "map_option password_hash (get_user (set_password d name ph) name) = Some ph"
      by (simp add: get_user_set_password Some)
    then obtain r where "get_user (set_password d name ph) name = Some r" "password_hash r = ph"
      by auto
    then show ?thesis
      unfolding d' using hash_verifies [OF len Inr]
      by (simp add: login_def)
  qed
qed

end
